theory Spec2Isabelle
  imports Complex_Main "HOL-Library.Sublist"
begin

section \<open>Data model\<close>

text \<open>
  The program is one Python class, \<open>InteractiveRenewableEnergyGenAI\<close>. Its instance
  holds the dictionary \<open>model_metrics\<close>, filled once by \<open>__init__\<close> and only read
  afterwards. Python floats are modelled as exact reals: rounding, infinities and NaN of
  the binary representation are outside the model. A number that Python keeps either as
  an \<open>int\<close> or as a \<open>float\<close> is a \<open>pynum\<close>.
\<close>

datatype pynum = PyInt int | PyFloat real

fun num_val :: "pynum \<Rightarrow> real" where
  "num_val (PyInt i) = real_of_int i"
| "num_val (PyFloat x) = x"

fun is_int :: "pynum \<Rightarrow> bool" where
  "is_int (PyInt i) = True"
| "is_int (PyFloat x) = False"

text \<open>
  Python's two-argument \<open>max(a, b)\<close> returns \<open>b\<close> when \<open>b > a\<close> and \<open>a\<close> otherwise,
  keeping the type of the argument it returns.
\<close>

definition py_max :: "pynum \<Rightarrow> pynum \<Rightarrow> pynum" where
  "py_max a b = (if num_val a < num_val b then b else a)"

text \<open>Python's \<open>int(x)\<close> on a float truncates towards zero.\<close>

definition py_int :: "real \<Rightarrow> int" where
  "py_int x = (if 0 \<le> x then \<lfloor>x\<rfloor> else \<lceil>x\<rceil>)"

text \<open>The dictionary \<open>self.model_metrics\<close>, with the keys \<open>__init__\<close> gives it.\<close>

record model_metrics =
  window_size :: int
  architecture :: string
  pv_mae :: real
  pv_rmse :: real
  pv_r2 :: real
  wind_mae :: real
  wind_rmse :: real
  wind_r2 :: real

definition init_model_metrics :: model_metrics where
  "init_model_metrics =
     \<lparr> window_size = 48,
       architecture = ''CNN: tanh | LSTM: sigmoid/sigmoid | Dense: elu'',
       pv_mae = 367.709,
       pv_rmse = 547.014,
       pv_r2 = 0.983,
       wind_mae = 178.476,
       wind_rmse = 221.862,
       wind_r2 = 0.965 \<rparr>"

text \<open>
  The dictionary \<open>community_data\<close> as \<open>get_user_input\<close> builds it: every key is
  present, the four measurements are floats, everything else is text.
\<close>

record community_data =
  name :: string
  region :: string
  type :: string
  population :: string
  avg_demand :: real
  peak_demand :: real
  avg_ghi :: real
  avg_wind_speed :: real
  season_pattern :: string
  main_challenge :: string
  special_needs :: string

text \<open>The dictionary that \<open>calculate_personalized_impact\<close> returns.\<close>

record personalized =
  cost_reduction_percent :: real
  monthly_savings_inr :: real
  reliability_improvement :: real
  renewable_penetration :: real
  peak_reduction :: real
  co2_reduction_tons :: real
  diesel_displacement_liters :: real
  jobs_created :: int
  payback_months :: pynum
  prediction_accuracy_pv :: real
  prediction_accuracy_wind :: real
  prediction_error_pv :: real
  prediction_error_wind :: real

section \<open>The impact calculator\<close>

definition type_factors :: "string \<rightharpoonup> real" where
  "type_factors =
     [''rural_agricultural'' \<mapsto> 1.0,
      ''urban_mixed'' \<mapsto> 1.15,
      ''industrial_zone'' \<mapsto> 1.25,
      ''coastal_area'' \<mapsto> 1.1]"

text \<open>\<open>type_factors.get(community_data['type'], 1.0)\<close>\<close>

definition adjustment :: "community_data \<Rightarrow> real" where
  "adjustment cd = (case type_factors (type cd) of Some f \<Rightarrow> f | None \<Rightarrow> 1.0)"

definition ghi_factor :: "community_data \<Rightarrow> real" where
  "ghi_factor cd = min 1.5 (avg_ghi cd / 400)"

definition wind_factor :: "community_data \<Rightarrow> real" where
  "wind_factor cd = min 1.8 (avg_wind_speed cd / 3.0)"

definition calculate_personalized_impact ::
    "model_metrics \<Rightarrow> community_data \<Rightarrow> personalized" where
  "calculate_personalized_impact mm cd =
     (let base_pv_efficiency = pv_r2 mm;
          base_wind_efficiency = wind_r2 mm;
          adj = adjustment cd;
          ghi_f = ghi_factor cd;
          wind_f = wind_factor cd
      in \<lparr> cost_reduction_percent =
             (base_pv_efficiency * 25 + base_wind_efficiency * 15) * adj,
           monthly_savings_inr = avg_demand cd * 0.12 * adj,
           reliability_improvement = (base_pv_efficiency + base_wind_efficiency) * 45,
           renewable_penetration =
             (base_pv_efficiency * 40 + base_wind_efficiency * 30) * ghi_f,
           peak_reduction = base_pv_efficiency * 20 * adj,
           co2_reduction_tons = avg_demand cd * 0.8 * adj,
           diesel_displacement_liters = avg_demand cd * 15 * adj,
           jobs_created = max 3 (py_int (avg_demand cd / 5000)),
           payback_months = py_max (PyInt 18) (PyFloat (36 - base_pv_efficiency * 12)),
           prediction_accuracy_pv = base_pv_efficiency,
           prediction_accuracy_wind = base_wind_efficiency,
           prediction_error_pv = pv_mae mm,
           prediction_error_wind = wind_mae mm \<rparr>)"

text \<open>The profile of the defaults that \<open>get_user_input\<close> offers.\<close>

definition default_profile :: community_data where
  "default_profile =
     \<lparr> name = ''Sample Community'',
       region = ''Unknown Region'',
       type = ''rural_agricultural'',
       population = ''10,000'',
       avg_demand = 22000,
       peak_demand = 35000,
       avg_ghi = 400,
       avg_wind_speed = 3.0,
       season_pattern = ''Balanced across seasons'',
       main_challenge = ''Unreliable grid supply'',
       special_needs = ''General community needs'' \<rparr>"

section \<open>Text formatting\<close>

text \<open>
  Report text is modelled as its UTF-8 encoding, one \<open>char\<close> per byte, which is what the
  program writes to the report file. Python's format specifications \<open>.0f\<close>, \<open>,.0f\<close>,
  \<open>.3f\<close> and \<open>.1%\<close> are defined on the exact real value: round half to even at the
  requested precision, a minus sign for a negative value, a comma between groups of three
  integer digits when grouping is asked for.
\<close>

definition digit_char :: "nat \<Rightarrow> char" where
  "digit_char d = ''0123456789'' ! d"

fun digits :: "nat \<Rightarrow> string" where
  "digits n = (if n < 10 then [digit_char n] else digits (n div 10) @ [digit_char (n mod 10)])"

declare digits.simps [simp del]

function group_thousands :: "string \<Rightarrow> string" where
  "group_thousands ds =
     (if length ds \<le> 3 then ds
      else group_thousands (take (length ds - 3) ds) @ '','' @ drop (length ds - 3) ds)"
  by pat_completeness auto
termination
  by (relation "measure length") auto

declare group_thousands.simps [simp del]

definition round_half_even :: "real \<Rightarrow> int" where
  "round_half_even x =
     (let f = \<lfloor>x\<rfloor>; r = x - real_of_int f
      in if r < 1 / 2 then f
         else if 1 / 2 < r then f + 1
         else if even f then f else f + 1)"

definition pad_zeros :: "nat \<Rightarrow> string \<Rightarrow> string" where
  "pad_zeros w s = replicate (w - length s) (CHR ''0'') @ s"

text \<open>\<open>format(x, '.<prec>f')\<close>, or \<open>format(x, ',.<prec>f')\<close> with grouping.\<close>

definition format_f :: "bool \<Rightarrow> nat \<Rightarrow> real \<Rightarrow> string" where
  "format_f grouping prec x =
     (let n = nat (round_half_even (\<bar>x\<bar> * 10 ^ prec));
          int_part = digits (n div 10 ^ prec);
          frac_part = pad_zeros prec (digits (n mod 10 ^ prec))
      in (if x < 0 then ''-'' else [])
         @ (if grouping then group_thousands int_part else int_part)
         @ (if prec = 0 then [] else ''.'' @ frac_part))"

text \<open>\<open>format(x, '.<prec>%')\<close>: the value times 100 in fixed notation, then a percent sign.\<close>

definition format_percent :: "nat \<Rightarrow> real \<Rightarrow> string" where
  "format_percent prec x = format_f False prec (x * 100) @ ''%''"

text \<open>\<open>str(i)\<close> of a Python \<open>int\<close>.\<close>

definition str_int :: "int \<Rightarrow> string" where
  "str_int i = (if i < 0 then ''-'' @ digits (nat (- i)) else digits (nat i))"

text \<open>
  \<open>str.upper\<close>, \<open>str.title\<close> and \<open>str.replace\<close> of one character, on ASCII letters;
  bytes outside ASCII are left as they are.
\<close>

definition is_lower :: "char \<Rightarrow> bool" where
  "is_lower c = (c \<in> set ''abcdefghijklmnopqrstuvwxyz'')"

definition is_upper :: "char \<Rightarrow> bool" where
  "is_upper c = (c \<in> set ''ABCDEFGHIJKLMNOPQRSTUVWXYZ'')"

definition to_upper :: "char \<Rightarrow> char" where
  "to_upper c =
     (case map_of (zip ''abcdefghijklmnopqrstuvwxyz'' ''ABCDEFGHIJKLMNOPQRSTUVWXYZ'') c of
        Some u \<Rightarrow> u | None \<Rightarrow> c)"

definition to_lower :: "char \<Rightarrow> char" where
  "to_lower c =
     (case map_of (zip ''ABCDEFGHIJKLMNOPQRSTUVWXYZ'' ''abcdefghijklmnopqrstuvwxyz'') c of
        Some l \<Rightarrow> l | None \<Rightarrow> c)"

definition upper :: "string \<Rightarrow> string" where
  "upper s = map to_upper s"

fun title_from :: "bool \<Rightarrow> string \<Rightarrow> string" where
  "title_from previous_is_cased [] = []"
| "title_from previous_is_cased (c # cs) =
     (if previous_is_cased then to_lower c else to_upper c)
       # title_from (is_lower c \<or> is_upper c) cs"

definition title :: "string \<Rightarrow> string" where
  "title s = title_from False s"

definition replace_char :: "char \<Rightarrow> char \<Rightarrow> string \<Rightarrow> string" where
  "replace_char old new s = map (\<lambda>c. if c = old then new else c) s"

text \<open>The characters outside ASCII that the templates use, in UTF-8.\<close>

definition wrench :: string where
  "wrench = [CHR 0xF0, CHR 0x9F, CHR 0x94, CHR 0xA7]"

definition bullet :: string where
  "bullet = [CHR 0xE2, CHR 0x80, CHR 0xA2]"

definition superscript_two :: string where
  "superscript_two = [CHR 0xC2, CHR 0xB2]"

definition plus_minus :: string where
  "plus_minus = [CHR 0xC2, CHR 0xB1]"

definition check_mark :: string where
  "check_mark = [CHR 0xE2, CHR 0x9C, CHR 0x93]"

definition robot_face :: string where
  "robot_face = [CHR 0xF0, CHR 0x9F, CHR 0xA4, CHR 0x96]"

definition bar_chart :: string where
  "bar_chart = [CHR 0xF0, CHR 0x9F, CHR 0x93, CHR 0x8A]"

definition money_bag :: string where
  "money_bag = [CHR 0xF0, CHR 0x9F, CHR 0x92, CHR 0xB0]"

definition rupee_sign :: string where
  "rupee_sign = [CHR 0xE2, CHR 0x82, CHR 0xB9]"

definition seedling :: string where
  "seedling = [CHR 0xF0, CHR 0x9F, CHR 0x8C, CHR 0xB1]"

definition subscript_two :: string where
  "subscript_two = [CHR 0xE2, CHR 0x82, CHR 0x82]"

definition high_voltage :: string where
  "high_voltage = [CHR 0xE2, CHR 0x9A, CHR 0xA1]"

definition busts :: string where
  "busts = [CHR 0xF0, CHR 0x9F, CHR 0x91, CHR 0xA5]"

definition direct_hit :: string where
  "direct_hit = [CHR 0xF0, CHR 0x9F, CHR 0x8E, CHR 0xAF]"

definition rocket :: string where
  "rocket = [CHR 0xF0, CHR 0x9F, CHR 0x9A, CHR 0x80]"

definition chart_upwards :: string where
  "chart_upwards = [CHR 0xF0, CHR 0x9F, CHR 0x93, CHR 0x88]"

definition light_bulb :: string where
  "light_bulb = [CHR 0xF0, CHR 0x9F, CHR 0x92, CHR 0xA1]"

definition earth_globe :: string where
  "earth_globe = [CHR 0xF0, CHR 0x9F, CHR 0x8C, CHR 0x8D]"

text \<open>
  A triple-quoted template whose text starts on the line after the opening quotes and
  whose closing quotes stand on a line of their own: a newline, then every line followed
  by a newline.
\<close>

definition text_block :: "string list \<Rightarrow> string" where
  "text_block ls = CHR ''\<newline>'' # concat (map (\<lambda>l. l @ [CHR ''\<newline>'']) ls)"

section \<open>The report renderer\<close>

text \<open>
  Two values come from outside the model: \<open>str()\<close> of a float, which prints the
  shortest decimal that reads back as the same binary number, and the clock, already
  formatted by \<open>strftime('%Y-%m-%d %H:%M')\<close>.
\<close>

record runtime =
  float_str :: "real \<Rightarrow> string"
  now :: string

definition generate_technical_analysis ::
    "runtime \<Rightarrow> community_data \<Rightarrow> personalized \<Rightarrow> string" where
  "generate_technical_analysis rt cd pm = text_block
     [wrench @ '' TECHNICAL ANALYSIS (Based on Your CNN+LSTM Model)'',
      [],
      ''MODEL PERFORMANCE IN '' @ upper (name cd) @ '':'',
      bullet @ '' Solar Prediction Accuracy: '' @ format_percent 1 (prediction_accuracy_pv pm)
        @ '' (R'' @ superscript_two @ '' = '' @ format_f False 3 (prediction_accuracy_pv pm)
        @ '')'',
      bullet @ '' Wind Prediction Accuracy: '' @ format_percent 1 (prediction_accuracy_wind pm)
        @ '' (R'' @ superscript_two @ '' = '' @ format_f False 3 (prediction_accuracy_wind pm)
        @ '')'',
      bullet @ '' Prediction Error Margin: '' @ plus_minus
        @ format_f False 0 (prediction_error_pv pm) @ '' units (PV), '' @ plus_minus
        @ format_f False 0 (prediction_error_wind pm) @ '' units (Wind)'',
      [],
      ''DATA FEATURES UTILIZED (From Your Database):'',
      check_mark @ '' Time-series patterns (48-hour window)'',
      check_mark @ '' Seasonal variations (Season: '' @ season_pattern cd @ '')'',
      check_mark @ '' Solar irradiance (GHI: '' @ float_str rt (avg_ghi cd) @ '' W/m''
        @ superscript_two @ '')'',
      check_mark @ '' Wind patterns (Wind speed: '' @ float_str rt (avg_wind_speed cd)
        @ '' m/s)'',
      check_mark @ '' Temperature and humidity correlations'',
      check_mark @ '' Historical production patterns'',
      [],
      ''OPTIMIZATION OPPORTUNITIES:'',
      bullet @ '' Load shifting potential: '' @ format_f False 0 (peak_reduction pm)
        @ ''% peak demand reduction'',
      bullet @ '' Renewable integration: '' @ format_f False 0 (renewable_penetration pm)
        @ ''% of total demand'',
      bullet @ '' Storage optimization: Based on 48-hour prediction window'',
      bullet @ '' Maintenance scheduling: Predictive alerts for system upkeep'']"

definition generate_ai_report ::
    "runtime \<Rightarrow> model_metrics \<Rightarrow> community_data \<Rightarrow> personalized \<Rightarrow> string" where
  "generate_ai_report rt mm cd pm = text_block
     [robot_face @ '' AI-POWERED RENEWABLE ENERGY IMPACT REPORT'',
      replicate 70 (CHR ''=''),
      ''Powered by Hybrid CNN+LSTM Model (R'' @ superscript_two @ '': 0.983 PV, 0.965 Wind)'',
      [],
      ''COMMUNITY: '' @ name cd,
      ''REGION: '' @ region cd,
      ''POPULATION: '' @ population cd,
      ''COMMUNITY TYPE: '' @ title (replace_char (CHR ''_'') (CHR '' '') (type cd)),
      ''ENERGY PROFILE: '' @ season_pattern cd,
      [],
      bar_chart @ '' EXECUTIVE SUMMARY'',
      [],
      ''Our AI model analysis shows exceptional potential for '' @ name cd @ '':'',
      [],
      bullet @ '' '' @ money_bag @ '' ECONOMIC: ''
        @ format_f False 0 (cost_reduction_percent pm) @ ''% cost reduction ('' @ rupee_sign
        @ format_f True 0 (monthly_savings_inr pm) @ ''/month)'',
      bullet @ '' '' @ seedling @ '' ENVIRONMENTAL: '' @ format_f True 0 (co2_reduction_tons pm)
        @ '' tons CO'' @ subscript_two @ '' reduction annually'',
      bullet @ '' '' @ high_voltage @ '' RELIABILITY: ''
        @ format_f False 0 (reliability_improvement pm) @ ''% improvement in energy access'',
      bullet @ '' '' @ busts @ '' SOCIAL: '' @ str_int (jobs_created pm)
        @ '' local green jobs created'',
      [],
      direct_hit @ '' ENERGY PROFILE ANALYSIS'',
      [],
      ''Current Situation:'',
      bullet @ '' Average Demand: '' @ format_f True 0 (avg_demand cd) @ '' kW'',
      bullet @ '' Peak Demand: '' @ format_f True 0 (peak_demand cd) @ '' kW  '',
      bullet @ '' Solar Potential: '' @ float_str rt (avg_ghi cd) @ '' W/m'' @ superscript_two
        @ '' GHI'',
      bullet @ '' Wind Potential: '' @ float_str rt (avg_wind_speed cd) @ '' m/s'',
      bullet @ '' Main Challenge: '' @ main_challenge cd,
      [],
      ''AI Model Confidence:'',
      bullet @ '' Solar Prediction: '' @ format_percent 1 (prediction_accuracy_pv pm)
        @ '' accuracy'',
      bullet @ '' Wind Prediction: '' @ format_percent 1 (prediction_accuracy_wind pm)
        @ '' accuracy'',
      bullet @ '' Combined Reliability: ''
        @ format_percent 1 ((prediction_accuracy_pv pm + prediction_accuracy_wind pm) / 2),
      [],
      rocket @ '' OPTIMIZATION STRATEGY'',
      [],
      ''Phase 1: Smart Forecasting (Months 1-3)'',
      bullet @ '' Deploy 48-hour ahead predictions using CNN+LSTM'',
      bullet @ '' Integrate with existing grid infrastructure'',
      bullet @ '' Train local operators on AI system'',
      [],
      ''Phase 2: Renewable Integration (Months 4-8)'',
      bullet @ '' Achieve '' @ format_f False 0 (renewable_penetration pm)
        @ ''% renewable penetration'',
      bullet @ '' Implement peak shaving strategies'',
      bullet @ '' Establish maintenance protocols'',
      [],
      ''Phase 3: Community Empowerment (Months 9-12)'',
      bullet @ '' Local ownership transition'',
      bullet @ '' Performance monitoring dashboard'',
      bullet @ '' Expansion planning'',
      [],
      generate_technical_analysis rt cd pm,
      [],
      chart_upwards @ '' QUANTIFIED BENEFITS'',
      [],
      ''IMMEDIATE (3-6 months):'',
      bullet @ '' Energy cost reduction: '' @ format_f False 0 (cost_reduction_percent pm)
        @ ''%'',
      bullet @ '' Grid reliability: '' @ format_f False 0 (reliability_improvement pm)
        @ ''% improvement  '',
      bullet @ '' Diesel displacement: '' @ format_f True 0 (diesel_displacement_liters pm)
        @ '' liters/month'',
      [],
      ''LONG-TERM (1-2 years):'',
      bullet @ '' CO'' @ subscript_two @ '' reduction: ''
        @ format_f True 0 (co2_reduction_tons pm) @ '' tons annually'',
      bullet @ '' Job creation: '' @ str_int (jobs_created pm) @ '' sustainable local jobs'',
      bullet @ '' Energy independence: '' @ format_f False 0 (renewable_penetration pm)
        @ ''% self-sufficiency'',
      [],
      light_bulb @ '' UNIQUE VALUE PROPOSITION'',
      [],
      ''YOUR AI MODEL EXCELLENCE:'',
      bullet @ '' Exceptional accuracy (98.3% for solar, 96.5% for wind)'',
      bullet @ '' 48-hour prediction window for optimal planning'',
      bullet @ '' Hybrid CNN-LSTM architecture for spatiotemporal patterns'',
      bullet @ '' Proven performance on your dataset structure'',
      [],
      direct_hit @ '' RECOMMENDATIONS FOR '' @ upper (name cd),
      [],
      ''1. TECHNICAL DEPLOYMENT:'',
      ''   '' @ bullet @ '' Leverage 48-hour prediction window for energy scheduling'',
      ''   '' @ bullet @ '' Use seasonal patterns from your data for capacity planning'',
      ''   '' @ bullet @ '' Implement real-time monitoring based on GHI and wind speed'',
      [],
      ''2. ECONOMIC MODEL:'',
      ''   '' @ bullet @ '' Payback period: '' @ format_f False 0 (num_val (payback_months pm))
        @ '' months'',
      ''   '' @ bullet @ '' ROI: '' @ format_f False 0 (cost_reduction_percent pm * 3)
        @ ''% over 3 years'',
      ''   '' @ bullet @ '' Operational savings: '' @ rupee_sign
        @ format_f True 0 (monthly_savings_inr pm) @ ''/month'',
      [],
      ''3. COMMUNITY ENGAGEMENT:'',
      ''   '' @ bullet @ '' Train '' @ str_int (jobs_created pm) @ '' local technicians'',
      ''   '' @ bullet @ '' Establish community energy committee'',
      ''   '' @ bullet @ '' Develop educational programs on renewable energy'',
      [],
      earth_globe @ '' SUSTAINABILITY IMPACT'',
      [],
      ''ALIGNMENT WITH SDGs:'',
      check_mark @ '' SDG 7: Affordable & Clean Energy (''
        @ format_f False 0 (renewable_penetration pm) @ ''% renewable)'',
      check_mark @ '' SDG 8: Decent Work ('' @ str_int (jobs_created pm) @ '' green jobs)  '',
      check_mark @ '' SDG 13: Climate Action ('' @ format_f True 0 (co2_reduction_tons pm)
        @ '' tons CO'' @ subscript_two @ '' reduction)'',
      [],
      ''SCALABILITY POTENTIAL:'',
      bullet @ '' Template for similar '' @ replace_char (CHR ''_'') (CHR '' '') (type cd)
        @ '' communities'',
      bullet @ '' Modular architecture for different regions'',
      bullet @ '' Data-driven optimization continuous learning'',
      [],
      ''---'',
      ''AI Model: Hybrid CNN-LSTM | Accuracy: PV '' @ format_percent 1 (pv_r2 mm) @ '', Wind ''
        @ format_percent 1 (wind_r2 mm),
      ''Generated for: '' @ name cd @ '' | Date: '' @ now rt,
      ''Data Features: Time, Season, DHI, DNI, GHI, Wind_speed, Humidity, Temperature'',
      replicate 70 (CHR ''='')]"

text \<open>
  A runtime for examples: \<open>str\<close> of a float that has at most one decimal, and a fixed
  time.
\<close>

definition sample_runtime :: runtime where
  "sample_runtime = \<lparr> float_str = format_f False 1, now = ''2025-01-01 12:00'' \<rparr>"

section \<open>Properties of the impact calculator\<close>

lemma adjustment_cases:
  "adjustment cd =
     (if type cd = ''coastal_area'' then 1.1
      else if type cd = ''industrial_zone'' then 1.25
      else if type cd = ''urban_mixed'' then 1.15
      else 1)"
  by (simp add: adjustment_def type_factors_def)

lemmas calc_defs = calculate_personalized_impact_def ghi_factor_def wind_factor_def
  adjustment_cases py_int_def py_max_def Let_def

text \<open>
  Claim C1. For a profile of type \<open>rural_agricultural\<close> with average demand 22000,
  average irradiance 400 and average wind speed 3.0, both potential factors are 1.0 and
  the calculator returns cost reduction 39.05, monthly savings 2640, CO2 reduction 17600,
  4 jobs and a payback of 24.204 months.
\<close>

theorem C1_default_scenario:
  assumes "type cd = ''rural_agricultural''" and "avg_demand cd = 22000"
    and "avg_ghi cd = 400" and "avg_wind_speed cd = 3.0"
  shows "ghi_factor cd = 1.0 \<and> wind_factor cd = 1.0 \<and>
    cost_reduction_percent (calculate_personalized_impact init_model_metrics cd) = 39.05 \<and>
    monthly_savings_inr (calculate_personalized_impact init_model_metrics cd) = 2640 \<and>
    co2_reduction_tons (calculate_personalized_impact init_model_metrics cd) = 17600 \<and>
    jobs_created (calculate_personalized_impact init_model_metrics cd) = 4 \<and>
    payback_months (calculate_personalized_impact init_model_metrics cd) = PyFloat 24.204"
  using assms by (simp add: calc_defs init_model_metrics_def)

text \<open>The default profile meets the four conditions of the scenario.\<close>

theorem C1_default_scenario_witness:
  "type default_profile = ''rural_agricultural'' \<and> avg_demand default_profile = 22000 \<and>
   avg_ghi default_profile = 400 \<and> avg_wind_speed default_profile = 3.0 \<and>
   ghi_factor default_profile = 1.0 \<and> wind_factor default_profile = 1.0 \<and>
   cost_reduction_percent (calculate_personalized_impact init_model_metrics default_profile) = 39.05 \<and>
   monthly_savings_inr (calculate_personalized_impact init_model_metrics default_profile) = 2640 \<and>
   co2_reduction_tons (calculate_personalized_impact init_model_metrics default_profile) = 17600 \<and>
   jobs_created (calculate_personalized_impact init_model_metrics default_profile) = 4 \<and>
   payback_months (calculate_personalized_impact init_model_metrics default_profile) = PyFloat 24.204"
proof -
  have h: "type default_profile = ''rural_agricultural''" "avg_demand default_profile = 22000"
    "avg_ghi default_profile = 400" "avg_wind_speed default_profile = 3.0"
    by (simp_all add: default_profile_def)
  show ?thesis using h C1_default_scenario [OF h] by simp
qed

text \<open>
  Claim C2 says that \<open>payback_months\<close> is an integer obtained by a floor. The source
  applies \<open>max\<close> only: for the default profile the value is the float 24.204, which is
  neither of integer type nor equal to its own floor, and differs from the floored
  value 24.
\<close>

theorem C2_payback_not_integer:
  "\<not> is_int (payback_months (calculate_personalized_impact init_model_metrics default_profile)) \<and>
   num_val (payback_months (calculate_personalized_impact init_model_metrics default_profile))
     \<noteq> real_of_int \<lfloor>num_val (payback_months
          (calculate_personalized_impact init_model_metrics default_profile))\<rfloor> \<and>
   payback_months (calculate_personalized_impact init_model_metrics default_profile)
     \<noteq> PyInt (max 18 \<lfloor>36 - 0.983 * 12 :: real\<rfloor>)"
  by (simp add: calc_defs init_model_metrics_def)

text \<open>
  Claim C2, amended. \<open>payback_months\<close> is \<open>max(18, 36 - pv_r2 * 12)\<close> with no floor:
  with \<open>pv_r2 = 0.983\<close> it is the float 24.204 for every profile, and whatever the
  model metrics are it is at least 18.
\<close>

theorem C2_payback_real:
  "payback_months (calculate_personalized_impact init_model_metrics cd) = PyFloat 24.204 \<and>
   payback_months (calculate_personalized_impact mm cd)
     = py_max (PyInt 18) (PyFloat (36 - pv_r2 mm * 12)) \<and>
   18 \<le> num_val (payback_months (calculate_personalized_impact mm cd))"
  by (simp add: calc_defs init_model_metrics_def)




text \<open>
  Claim C4. For a profile with non-negative average demand, \<open>jobs_created\<close> is
  \<open>max(3, floor(avg_demand / 5000))\<close> and so at least 3; when the demand is 0 the
  calculator returns 3 jobs, CO2 reduction 0 and monthly savings 0.
\<close>

theorem C4_jobs_created:
  assumes "0 \<le> avg_demand cd"
  shows "jobs_created (calculate_personalized_impact mm cd) = max 3 \<lfloor>avg_demand cd / 5000\<rfloor> \<and>
    3 \<le> jobs_created (calculate_personalized_impact mm cd) \<and>
    (avg_demand cd = 0 \<longrightarrow>
       jobs_created (calculate_personalized_impact mm cd) = 3 \<and>
       co2_reduction_tons (calculate_personalized_impact mm cd) = 0 \<and>
       monthly_savings_inr (calculate_personalized_impact mm cd) = 0)"
  using assms by (simp add: calc_defs)

text \<open>The default profile with its demand set to 0 meets both conditions.\<close>

theorem C4_jobs_created_witness:
  "0 \<le> avg_demand (default_profile\<lparr>avg_demand := 0\<rparr>) \<and>
   avg_demand (default_profile\<lparr>avg_demand := 0\<rparr>) = 0 \<and>
   jobs_created (calculate_personalized_impact init_model_metrics
      (default_profile\<lparr>avg_demand := 0\<rparr>)) = 3 \<and>
   co2_reduction_tons (calculate_personalized_impact init_model_metrics
      (default_profile\<lparr>avg_demand := 0\<rparr>)) = 0 \<and>
   monthly_savings_inr (calculate_personalized_impact init_model_metrics
      (default_profile\<lparr>avg_demand := 0\<rparr>)) = 0"
proof -
  have h: "0 \<le> avg_demand (default_profile\<lparr>avg_demand := 0\<rparr>)" by simp
  show ?thesis
    using C4_jobs_created [OF h, of init_model_metrics] by simp
qed

text \<open>
  Claim C5. \<open>renewable_penetration\<close> is \<open>(pv_r2 * 40 + wind_r2 * 30) * ghi_factor\<close>,
  with \<open>pv_r2 = 0.983\<close> and \<open>wind_r2 = 0.965\<close> in the metrics of \<open>__init__\<close>, and
  changing the average wind speed of a profile leaves it unchanged.
\<close>

theorem C5_renewable_penetration:
  "renewable_penetration (calculate_personalized_impact init_model_metrics cd)
     = (0.983 * 40 + 0.965 * 30) * ghi_factor cd \<and>
   renewable_penetration (calculate_personalized_impact mm cd)
     = (pv_r2 mm * 40 + wind_r2 mm * 30) * min 1.5 (avg_ghi cd / 400) \<and>
   renewable_penetration (calculate_personalized_impact mm (cd\<lparr>avg_wind_speed := w\<rparr>))
     = renewable_penetration (calculate_personalized_impact mm cd)"
  by (simp add: calculate_personalized_impact_def ghi_factor_def init_model_metrics_def Let_def)

text \<open>
  Claim C6. For a profile whose type is none of the four known keys the adjustment
  factor is 1.0; each metric that uses the factor has its value under factor 1.0, and the
  whole result equals that of the same profile with type \<open>rural_agricultural\<close>, whose
  factor is 1.0.
\<close>

theorem C6_unrecognized_type:
  assumes "type cd \<notin> {''rural_agricultural'', ''urban_mixed'', ''industrial_zone'', ''coastal_area''}"
  shows "adjustment cd = 1.0 \<and>
    cost_reduction_percent (calculate_personalized_impact mm cd)
      = (pv_r2 mm * 25 + wind_r2 mm * 15) * 1.0 \<and>
    monthly_savings_inr (calculate_personalized_impact mm cd) = avg_demand cd * 0.12 * 1.0 \<and>
    peak_reduction (calculate_personalized_impact mm cd) = pv_r2 mm * 20 * 1.0 \<and>
    co2_reduction_tons (calculate_personalized_impact mm cd) = avg_demand cd * 0.8 * 1.0 \<and>
    diesel_displacement_liters (calculate_personalized_impact mm cd) = avg_demand cd * 15 * 1.0 \<and>
    calculate_personalized_impact mm cd
      = calculate_personalized_impact mm (cd\<lparr>type := ''rural_agricultural''\<rparr>)"
  using assms by (simp add: calc_defs)

text \<open>A profile of the unknown type \<open>mountain_village\<close>.\<close>

theorem C6_unrecognized_type_witness:
  "type (default_profile\<lparr>type := ''mountain_village''\<rparr>)
     \<notin> {''rural_agricultural'', ''urban_mixed'', ''industrial_zone'', ''coastal_area''} \<and>
   adjustment (default_profile\<lparr>type := ''mountain_village''\<rparr>) = 1.0 \<and>
   co2_reduction_tons (calculate_personalized_impact init_model_metrics
      (default_profile\<lparr>type := ''mountain_village''\<rparr>)) = 17600"
proof -
  let ?p = "default_profile\<lparr>type := ''mountain_village''\<rparr>"
  have h: "type ?p
     \<notin> {''rural_agricultural'', ''urban_mixed'', ''industrial_zone'', ''coastal_area''}"
    by simp
  note r = C6_unrecognized_type [OF h, of init_model_metrics]
  have a: "adjustment ?p = 1.0"
    using r by blast
  have c: "co2_reduction_tons (calculate_personalized_impact init_model_metrics ?p)
      = avg_demand ?p * 0.8 * 1.0"
    using r by blast
  have d: "avg_demand ?p = 22000"
    by (simp add: default_profile_def)
  show ?thesis
    using h a c d by simp
qed

text \<open>
  Claim C7 names \<open>pv_r2\<close> and \<open>wind_r2\<close> as the only instance data the result depends
  on. The calculator also copies \<open>pv_mae\<close> and \<open>wind_mae\<close> of \<open>model_metrics\<close> into
  the result: two instances that agree on \<open>pv_r2\<close> and \<open>wind_r2\<close> but not on
  \<open>pv_mae\<close> return different metrics for the same profile.
\<close>

theorem C7_depends_on_error_constants:
  "pv_r2 (init_model_metrics\<lparr>pv_mae := 0\<rparr>) = pv_r2 init_model_metrics \<and>
   wind_r2 (init_model_metrics\<lparr>pv_mae := 0\<rparr>) = wind_r2 init_model_metrics \<and>
   calculate_personalized_impact (init_model_metrics\<lparr>pv_mae := 0\<rparr>) default_profile
     \<noteq> calculate_personalized_impact init_model_metrics default_profile"
  by (simp add: calculate_personalized_impact_def init_model_metrics_def Let_def)

text \<open>
  Claim C7, amended. The result of the calculator is determined by the profile and the
  four entries \<open>pv_r2\<close>, \<open>wind_r2\<close>, \<open>pv_mae\<close> and \<open>wind_mae\<close> of
  \<open>model_metrics\<close>: two invocations on identical profiles, by instances that agree on
  these four entries, return identical metrics.
\<close>

theorem C7_deterministic:
  assumes "cd = cd'"
    and "pv_r2 mm = pv_r2 mm'" and "wind_r2 mm = wind_r2 mm'"
    and "pv_mae mm = pv_mae mm'" and "wind_mae mm = wind_mae mm'"
  shows "calculate_personalized_impact mm cd = calculate_personalized_impact mm' cd'"
  using assms by (simp add: calculate_personalized_impact_def)

text \<open>
  An instance that differs from the one of \<open>__init__\<close> in entries the calculator does
  not read.
\<close>

theorem C7_deterministic_witness:
  "default_profile = default_profile \<and>
   pv_r2 init_model_metrics = pv_r2 (init_model_metrics\<lparr>window_size := 24, pv_rmse := 0\<rparr>) \<and>
   wind_r2 init_model_metrics = wind_r2 (init_model_metrics\<lparr>window_size := 24, pv_rmse := 0\<rparr>) \<and>
   pv_mae init_model_metrics = pv_mae (init_model_metrics\<lparr>window_size := 24, pv_rmse := 0\<rparr>) \<and>
   wind_mae init_model_metrics = wind_mae (init_model_metrics\<lparr>window_size := 24, pv_rmse := 0\<rparr>) \<and>
   calculate_personalized_impact init_model_metrics default_profile
     = calculate_personalized_impact (init_model_metrics\<lparr>window_size := 24, pv_rmse := 0\<rparr>)
         default_profile"
  using C7_deterministic [of default_profile default_profile init_model_metrics
      "init_model_metrics\<lparr>window_size := 24, pv_rmse := 0\<rparr>"]
  by simp

text \<open>
  Claim C9. Two profiles that agree on type, average demand and average irradiance get
  the same metrics, whatever their other fields are.
\<close>

theorem C9_depends_on_three_fields:
  assumes "type cd = type cd'" and "avg_demand cd = avg_demand cd'"
    and "avg_ghi cd = avg_ghi cd'"
  shows "calculate_personalized_impact mm cd = calculate_personalized_impact mm cd'"
  using assms
  by (simp add: calculate_personalized_impact_def ghi_factor_def adjustment_def)

text \<open>Two profiles that differ in every field the calculator does not use.\<close>

theorem C9_depends_on_three_fields_witness:
  "type default_profile = type (default_profile\<lparr>name := ''Harbour Town'', region := ''Goa'',
       population := ''2,500'', peak_demand := 1, avg_wind_speed := 9.5,
       season_pattern := ''Monsoon dominant (Variable solar, moderate demand)'',
       main_challenge := ''High energy costs'', special_needs := ''Schools''\<rparr>) \<and>
   avg_demand default_profile = avg_demand (default_profile\<lparr>name := ''Harbour Town'',
       region := ''Goa'', population := ''2,500'', peak_demand := 1, avg_wind_speed := 9.5,
       season_pattern := ''Monsoon dominant (Variable solar, moderate demand)'',
       main_challenge := ''High energy costs'', special_needs := ''Schools''\<rparr>) \<and>
   avg_ghi default_profile = avg_ghi (default_profile\<lparr>name := ''Harbour Town'',
       region := ''Goa'', population := ''2,500'', peak_demand := 1, avg_wind_speed := 9.5,
       season_pattern := ''Monsoon dominant (Variable solar, moderate demand)'',
       main_challenge := ''High energy costs'', special_needs := ''Schools''\<rparr>) \<and>
   calculate_personalized_impact init_model_metrics default_profile
     = calculate_personalized_impact init_model_metrics
         (default_profile\<lparr>name := ''Harbour Town'', region := ''Goa'',
            population := ''2,500'', peak_demand := 1, avg_wind_speed := 9.5,
            season_pattern := ''Monsoon dominant (Variable solar, moderate demand)'',
            main_challenge := ''High energy costs'', special_needs := ''Schools''\<rparr>)"
  using C9_depends_on_three_fields [of default_profile
      "default_profile\<lparr>name := ''Harbour Town'', region := ''Goa'',
         population := ''2,500'', peak_demand := 1, avg_wind_speed := 9.5,
         season_pattern := ''Monsoon dominant (Variable solar, moderate demand)'',
         main_challenge := ''High energy costs'', special_needs := ''Schools''\<rparr>"
      init_model_metrics]
  by simp

text \<open>
  Claim C10. With the metrics of \<open>__init__\<close>, \<open>reliability_improvement\<close> is
  \<open>(0.983 + 0.965) * 45 = 87.66\<close> for every profile.
\<close>

theorem C10_reliability_constant:
  "reliability_improvement (calculate_personalized_impact init_model_metrics cd)
     = (0.983 + 0.965) * 45 \<and>
   reliability_improvement (calculate_personalized_impact init_model_metrics cd) = 87.66"
  by (simp add: calculate_personalized_impact_def init_model_metrics_def Let_def)

section \<open>Properties of the report renderer\<close>

text \<open>A formatted number is never the empty text.\<close>

lemma digits_nonempty: "digits n \<noteq> []"
  by (subst digits.simps) simp

lemma group_thousands_nonempty: "ds \<noteq> [] \<Longrightarrow> group_thousands ds \<noteq> []"
  by (subst group_thousands.simps) simp

lemma format_f_nonempty: "format_f grouping prec x \<noteq> []"
  by (simp add: format_f_def Let_def digits_nonempty group_thousands_nonempty)

text \<open>
  A piece of a line is a piece of the block that holds the line; a piece of a segment is
  a piece of the line that is built by appending segments.
\<close>

lemma text_block_here: "sublist x l \<Longrightarrow> sublist x (text_block (l # ls))"
proof -
  assume "sublist x l"
  then obtain ps ss where l: "l = ps @ x @ ss"
    by (auto simp: sublist_def)
  have "text_block (l # ls)
      = (CHR ''\<newline>'' # ps) @ x @ (ss @ CHR ''\<newline>'' # concat (map (\<lambda>l. l @ [CHR ''\<newline>'']) ls))"
    by (simp add: text_block_def l)
  then show ?thesis
    unfolding sublist_def by blast
qed

lemma text_block_skip: "sublist x (text_block ls) \<Longrightarrow> sublist x (text_block (l # ls))"
proof -
  assume "sublist x (text_block ls)"
  then obtain ps ss where t: "text_block ls = ps @ x @ ss"
    by (auto simp: sublist_def)
  have "text_block (l # ls) = (CHR ''\<newline>'' # l) @ text_block ls"
    by (simp add: text_block_def)
  then have "text_block (l # ls) = ((CHR ''\<newline>'' # l) @ ps) @ x @ ss"
    by (simp add: t)
  then show ?thesis
    unfolding sublist_def by blast
qed

lemma sublist_skip: "sublist x ys \<Longrightarrow> sublist x (ps @ ys)"
  by (auto simp: sublist_def) (metis append.assoc)

lemma sublist_here: "sublist x (x @ ss)"
  by simp

lemma sublist_self: "sublist x x"
  by simp

lemmas in_line =
  sublist_self
  sublist_here
  sublist_skip [OF sublist_self]
  sublist_skip [OF sublist_here]
  sublist_skip [OF sublist_skip [OF sublist_self]]
  sublist_skip [OF sublist_skip [OF sublist_here]]
  sublist_skip [OF sublist_skip [OF sublist_skip [OF sublist_self]]]
  sublist_skip [OF sublist_skip [OF sublist_skip [OF sublist_here]]]
  sublist_skip [OF sublist_skip [OF sublist_skip [OF sublist_skip [OF sublist_self]]]]
  sublist_skip [OF sublist_skip [OF sublist_skip [OF sublist_skip [OF sublist_here]]]]
  sublist_skip [OF sublist_skip [OF sublist_skip [OF sublist_skip [OF sublist_skip [OF sublist_self]]]]]
  sublist_skip [OF sublist_skip [OF sublist_skip [OF sublist_skip [OF sublist_skip [OF sublist_here]]]]]
  sublist_skip [OF sublist_skip [OF sublist_skip [OF sublist_skip [OF sublist_skip [OF sublist_skip [OF sublist_self]]]]]]
  sublist_skip [OF sublist_skip [OF sublist_skip [OF sublist_skip [OF sublist_skip [OF sublist_skip [OF sublist_here]]]]]]
  sublist_skip [OF sublist_skip [OF sublist_skip [OF sublist_skip [OF sublist_skip [OF sublist_skip [OF sublist_skip [OF sublist_self]]]]]]]
  sublist_skip [OF sublist_skip [OF sublist_skip [OF sublist_skip [OF sublist_skip [OF sublist_skip [OF sublist_skip [OF sublist_here]]]]]]]

text \<open>
  The three fields that only the technical analysis prints, then the thirteen fields in
  the report; the report reaches the first three through the analysis it embeds.
\<close>

lemma tech_peak_reduction:
  "sublist (format_f False 0 (peak_reduction pm))
     (generate_technical_analysis rt cd pm)"
  unfolding generate_technical_analysis_def
  by ((rule text_block_here, rule in_line) | rule text_block_skip)+

lemma tech_prediction_error_pv:
  "sublist (format_f False 0 (prediction_error_pv pm))
     (generate_technical_analysis rt cd pm)"
  unfolding generate_technical_analysis_def
  by ((rule text_block_here, rule in_line) | rule text_block_skip)+

lemma tech_prediction_error_wind:
  "sublist (format_f False 0 (prediction_error_wind pm))
     (generate_technical_analysis rt cd pm)"
  unfolding generate_technical_analysis_def
  by ((rule text_block_here, rule in_line) | rule text_block_skip)+

lemmas in_report_line = in_line tech_peak_reduction tech_prediction_error_pv
  tech_prediction_error_wind

lemma report_cost_reduction_percent:
  "sublist (format_f False 0 (cost_reduction_percent pm))
     (generate_ai_report rt mm cd pm)"
  unfolding generate_ai_report_def
  by ((rule text_block_here, rule in_report_line) | rule text_block_skip)+

lemma report_monthly_savings_inr:
  "sublist (format_f True 0 (monthly_savings_inr pm))
     (generate_ai_report rt mm cd pm)"
  unfolding generate_ai_report_def
  by ((rule text_block_here, rule in_report_line) | rule text_block_skip)+

lemma report_reliability_improvement:
  "sublist (format_f False 0 (reliability_improvement pm))
     (generate_ai_report rt mm cd pm)"
  unfolding generate_ai_report_def
  by ((rule text_block_here, rule in_report_line) | rule text_block_skip)+

lemma report_renewable_penetration:
  "sublist (format_f False 0 (renewable_penetration pm))
     (generate_ai_report rt mm cd pm)"
  unfolding generate_ai_report_def
  by ((rule text_block_here, rule in_report_line) | rule text_block_skip)+

lemma report_peak_reduction:
  "sublist (format_f False 0 (peak_reduction pm))
     (generate_ai_report rt mm cd pm)"
  unfolding generate_ai_report_def
  by ((rule text_block_here, rule in_report_line) | rule text_block_skip)+

lemma report_co2_reduction_tons:
  "sublist (format_f True 0 (co2_reduction_tons pm))
     (generate_ai_report rt mm cd pm)"
  unfolding generate_ai_report_def
  by ((rule text_block_here, rule in_report_line) | rule text_block_skip)+

lemma report_diesel_displacement_liters:
  "sublist (format_f True 0 (diesel_displacement_liters pm))
     (generate_ai_report rt mm cd pm)"
  unfolding generate_ai_report_def
  by ((rule text_block_here, rule in_report_line) | rule text_block_skip)+

lemma report_jobs_created:
  "sublist (str_int (jobs_created pm))
     (generate_ai_report rt mm cd pm)"
  unfolding generate_ai_report_def
  by ((rule text_block_here, rule in_report_line) | rule text_block_skip)+

lemma report_payback_months:
  "sublist (format_f False 0 (num_val (payback_months pm)))
     (generate_ai_report rt mm cd pm)"
  unfolding generate_ai_report_def
  by ((rule text_block_here, rule in_report_line) | rule text_block_skip)+

lemma report_prediction_accuracy_pv:
  "sublist (format_percent 1 (prediction_accuracy_pv pm))
     (generate_ai_report rt mm cd pm)"
  unfolding generate_ai_report_def
  by ((rule text_block_here, rule in_report_line) | rule text_block_skip)+

lemma report_prediction_accuracy_wind:
  "sublist (format_percent 1 (prediction_accuracy_wind pm))
     (generate_ai_report rt mm cd pm)"
  unfolding generate_ai_report_def
  by ((rule text_block_here, rule in_report_line) | rule text_block_skip)+

lemma report_prediction_error_pv:
  "sublist (format_f False 0 (prediction_error_pv pm))
     (generate_ai_report rt mm cd pm)"
  unfolding generate_ai_report_def
  by ((rule text_block_here, rule in_report_line) | rule text_block_skip)+

lemma report_prediction_error_wind:
  "sublist (format_f False 0 (prediction_error_wind pm))
     (generate_ai_report rt mm cd pm)"
  unfolding generate_ai_report_def
  by ((rule text_block_here, rule in_report_line) | rule text_block_skip)+

text \<open>
  Claim C8. For every profile and the metrics the calculator derives from it, the
  rendered report contains, as a contiguous piece of text, each metric in the format the
  template gives it: cost reduction, reliability improvement, renewable penetration, peak
  reduction, payback months and the two prediction errors with no decimals, monthly
  savings, CO2 reduction and diesel displacement with no decimals and grouped thousands,
  the number of jobs as an integer, and the two prediction accuracies as percentages
  with one decimal.
\<close>

theorem C8_fields_in_report:
  "sublist (format_f False 0 (cost_reduction_percent (calculate_personalized_impact mm cd)))
     (generate_ai_report rt mm cd (calculate_personalized_impact mm cd)) \<and>
   sublist (format_f True 0 (monthly_savings_inr (calculate_personalized_impact mm cd)))
     (generate_ai_report rt mm cd (calculate_personalized_impact mm cd)) \<and>
   sublist (format_f False 0 (reliability_improvement (calculate_personalized_impact mm cd)))
     (generate_ai_report rt mm cd (calculate_personalized_impact mm cd)) \<and>
   sublist (format_f False 0 (renewable_penetration (calculate_personalized_impact mm cd)))
     (generate_ai_report rt mm cd (calculate_personalized_impact mm cd)) \<and>
   sublist (format_f False 0 (peak_reduction (calculate_personalized_impact mm cd)))
     (generate_ai_report rt mm cd (calculate_personalized_impact mm cd)) \<and>
   sublist (format_f True 0 (co2_reduction_tons (calculate_personalized_impact mm cd)))
     (generate_ai_report rt mm cd (calculate_personalized_impact mm cd)) \<and>
   sublist (format_f True 0 (diesel_displacement_liters (calculate_personalized_impact mm cd)))
     (generate_ai_report rt mm cd (calculate_personalized_impact mm cd)) \<and>
   sublist (str_int (jobs_created (calculate_personalized_impact mm cd)))
     (generate_ai_report rt mm cd (calculate_personalized_impact mm cd)) \<and>
   sublist (format_f False 0 (num_val (payback_months (calculate_personalized_impact mm cd))))
     (generate_ai_report rt mm cd (calculate_personalized_impact mm cd)) \<and>
   sublist (format_percent 1 (prediction_accuracy_pv (calculate_personalized_impact mm cd)))
     (generate_ai_report rt mm cd (calculate_personalized_impact mm cd)) \<and>
   sublist (format_percent 1 (prediction_accuracy_wind (calculate_personalized_impact mm cd)))
     (generate_ai_report rt mm cd (calculate_personalized_impact mm cd)) \<and>
   sublist (format_f False 0 (prediction_error_pv (calculate_personalized_impact mm cd)))
     (generate_ai_report rt mm cd (calculate_personalized_impact mm cd)) \<and>
   sublist (format_f False 0 (prediction_error_wind (calculate_personalized_impact mm cd)))
     (generate_ai_report rt mm cd (calculate_personalized_impact mm cd))"
  by (intro conjI report_cost_reduction_percent report_monthly_savings_inr
      report_reliability_improvement report_renewable_penetration report_peak_reduction
      report_co2_reduction_tons report_diesel_displacement_liters report_jobs_created
      report_payback_months report_prediction_accuracy_pv report_prediction_accuracy_wind
      report_prediction_error_pv report_prediction_error_wind)

text \<open>
  The report of the default profile shows 39 (percent cost reduction), 2,640 (rupees a
  month), 88, 68, 20, 17,600, 330,000, 4 (jobs), 24 (months), 98.3%, 96.5%, 368 and 178.
\<close>

lemma default_profile_formatted:
    "format_f False 0 (cost_reduction_percent (calculate_personalized_impact init_model_metrics default_profile)) = ''39''"
    "format_f True 0 (monthly_savings_inr (calculate_personalized_impact init_model_metrics default_profile)) = ''2,640''"
    "format_f False 0 (reliability_improvement (calculate_personalized_impact init_model_metrics default_profile)) = ''88''"
    "format_f False 0 (renewable_penetration (calculate_personalized_impact init_model_metrics default_profile)) = ''68''"
    "format_f False 0 (peak_reduction (calculate_personalized_impact init_model_metrics default_profile)) = ''20''"
    "format_f True 0 (co2_reduction_tons (calculate_personalized_impact init_model_metrics default_profile)) = ''17,600''"
    "format_f True 0 (diesel_displacement_liters (calculate_personalized_impact init_model_metrics default_profile)) = ''330,000''"
    "str_int (jobs_created (calculate_personalized_impact init_model_metrics default_profile)) = ''4''"
    "format_f False 0 (num_val (payback_months (calculate_personalized_impact init_model_metrics default_profile))) = ''24''"
    "format_percent 1 (prediction_accuracy_pv (calculate_personalized_impact init_model_metrics default_profile)) = ''98.3%''"
    "format_percent 1 (prediction_accuracy_wind (calculate_personalized_impact init_model_metrics default_profile)) = ''96.5%''"
    "format_f False 0 (prediction_error_pv (calculate_personalized_impact init_model_metrics default_profile)) = ''368''"
    "format_f False 0 (prediction_error_wind (calculate_personalized_impact init_model_metrics default_profile)) = ''178''"
  by (simp_all add: calc_defs init_model_metrics_def default_profile_def format_percent_def
      format_f_def round_half_even_def str_int_def pad_zeros_def digit_char_def
      digits.simps group_thousands.simps)

theorem C8_fields_in_report_witness:
  "sublist ''39''
     (generate_ai_report sample_runtime init_model_metrics default_profile
        (calculate_personalized_impact init_model_metrics default_profile)) \<and>
   sublist ''2,640''
     (generate_ai_report sample_runtime init_model_metrics default_profile
        (calculate_personalized_impact init_model_metrics default_profile)) \<and>
   sublist ''88''
     (generate_ai_report sample_runtime init_model_metrics default_profile
        (calculate_personalized_impact init_model_metrics default_profile)) \<and>
   sublist ''68''
     (generate_ai_report sample_runtime init_model_metrics default_profile
        (calculate_personalized_impact init_model_metrics default_profile)) \<and>
   sublist ''20''
     (generate_ai_report sample_runtime init_model_metrics default_profile
        (calculate_personalized_impact init_model_metrics default_profile)) \<and>
   sublist ''17,600''
     (generate_ai_report sample_runtime init_model_metrics default_profile
        (calculate_personalized_impact init_model_metrics default_profile)) \<and>
   sublist ''330,000''
     (generate_ai_report sample_runtime init_model_metrics default_profile
        (calculate_personalized_impact init_model_metrics default_profile)) \<and>
   sublist ''4''
     (generate_ai_report sample_runtime init_model_metrics default_profile
        (calculate_personalized_impact init_model_metrics default_profile)) \<and>
   sublist ''24''
     (generate_ai_report sample_runtime init_model_metrics default_profile
        (calculate_personalized_impact init_model_metrics default_profile)) \<and>
   sublist ''98.3%''
     (generate_ai_report sample_runtime init_model_metrics default_profile
        (calculate_personalized_impact init_model_metrics default_profile)) \<and>
   sublist ''96.5%''
     (generate_ai_report sample_runtime init_model_metrics default_profile
        (calculate_personalized_impact init_model_metrics default_profile)) \<and>
   sublist ''368''
     (generate_ai_report sample_runtime init_model_metrics default_profile
        (calculate_personalized_impact init_model_metrics default_profile)) \<and>
   sublist ''178''
     (generate_ai_report sample_runtime init_model_metrics default_profile
        (calculate_personalized_impact init_model_metrics default_profile))"
  using C8_fields_in_report [where rt = sample_runtime and mm = init_model_metrics
      and cd = default_profile]
  by (simp only: default_profile_formatted)

end
